theory Spec2Isabelle
  imports Main "HOL-Library.Word"
begin

unbundle bit_operations_syntax

section \<open>Machine types\<close>

type_synonym u8 = "8 word"
type_synonym i8 = "8 word"    \<comment> \<open>int8_t: the same eight bits, read with sint\<close>
type_synonym i16 = "16 word"  \<comment> \<open>int16_t, read with sint\<close>
type_synonym u32 = "32 word"

section \<open>i2c_registers.h: register map, bit masks, command codes\<close>

text \<open>
  I2CRegisterBank is a packed struct of 128 bytes that the code reaches both through its
  named fields and through a byte pointer (reg_ptr[reg_addr]).  It is modelled as a store
  from byte offset to byte; the field at offset k is the byte at address k, and every named
  field sits at the offset of its REG_ macro (device_id at 0x00, control at 0x10, ...,
  config_options at 0x72), so the REG_ names below serve for both.
\<close>

type_synonym bank = "u8 \<Rightarrow> u8"

abbreviation (input) REG_DEVICE_ID :: u8 where "REG_DEVICE_ID \<equiv> 0x00"
abbreviation (input) REG_FIRMWARE_VER_MAJ :: u8 where "REG_FIRMWARE_VER_MAJ \<equiv> 0x01"
abbreviation (input) REG_FIRMWARE_VER_MIN :: u8 where "REG_FIRMWARE_VER_MIN \<equiv> 0x02"
abbreviation (input) REG_FIRMWARE_VER_PATCH :: u8 where "REG_FIRMWARE_VER_PATCH \<equiv> 0x03"
abbreviation (input) REG_CONTROL :: u8 where "REG_CONTROL \<equiv> 0x10"
abbreviation (input) REG_STATUS :: u8 where "REG_STATUS \<equiv> 0x11"
abbreviation (input) REG_ERROR :: u8 where "REG_ERROR \<equiv> 0x12"
abbreviation (input) REG_VU_LEFT :: u8 where "REG_VU_LEFT \<equiv> 0x20"
abbreviation (input) REG_VU_RIGHT :: u8 where "REG_VU_RIGHT \<equiv> 0x21"
abbreviation (input) REG_VU_MODE :: u8 where "REG_VU_MODE \<equiv> 0x22"
abbreviation (input) REG_BACKLIGHT :: u8 where "REG_BACKLIGHT \<equiv> 0x30"
abbreviation (input) REG_BACKLIGHT_MODE :: u8 where "REG_BACKLIGHT_MODE \<equiv> 0x31"
abbreviation (input) REG_TAPE_SPEED :: u8 where "REG_TAPE_SPEED \<equiv> 0x40"
abbreviation (input) REG_TAPE_DIRECTION :: u8 where "REG_TAPE_DIRECTION \<equiv> 0x41"
abbreviation (input) REG_TAPE_MODE :: u8 where "REG_TAPE_MODE \<equiv> 0x42"
abbreviation (input) REG_INPUT_STATUS_LOW :: u8 where "REG_INPUT_STATUS_LOW \<equiv> 0x50"
abbreviation (input) REG_INPUT_STATUS_HIGH :: u8 where "REG_INPUT_STATUS_HIGH \<equiv> 0x51"
abbreviation (input) REG_INPUT_CHANGED_LOW :: u8 where "REG_INPUT_CHANGED_LOW \<equiv> 0x52"
abbreviation (input) REG_INPUT_CHANGED_HIGH :: u8 where "REG_INPUT_CHANGED_HIGH \<equiv> 0x53"
abbreviation (input) REG_ENCODER_POS_LOW :: u8 where "REG_ENCODER_POS_LOW \<equiv> 0x60"
abbreviation (input) REG_ENCODER_POS_HIGH :: u8 where "REG_ENCODER_POS_HIGH \<equiv> 0x61"
abbreviation (input) REG_ENCODER_DELTA :: u8 where "REG_ENCODER_DELTA \<equiv> 0x62"
abbreviation (input) REG_ENCODER_BUTTON :: u8 where "REG_ENCODER_BUTTON \<equiv> 0x63"
abbreviation (input) REG_CONFIG_VU_FREQ :: u8 where "REG_CONFIG_VU_FREQ \<equiv> 0x70"
abbreviation (input) REG_CONFIG_DEBOUNCE :: u8 where "REG_CONFIG_DEBOUNCE \<equiv> 0x71"
abbreviation (input) REG_CONFIG_OPTIONS :: u8 where "REG_CONFIG_OPTIONS \<equiv> 0x72"
abbreviation (input) REG_COMMAND :: u8 where "REG_COMMAND \<equiv> 0xF0"

text \<open>sizeof(I2CRegisterBank): 8 blocks of 16 bytes.\<close>
abbreviation (input) SIZEOF_BANK :: u8 where "SIZEOF_BANK \<equiv> 0x80"

text \<open>REG_CONTROL bits, (1 << 0) to (1 << 7).\<close>
abbreviation (input) CTRL_ENABLE :: u8 where "CTRL_ENABLE \<equiv> 0x01"
abbreviation (input) CTRL_RESET_ENCODER :: u8 where "CTRL_RESET_ENCODER \<equiv> 0x02"
abbreviation (input) CTRL_CLEAR_INPUTS :: u8 where "CTRL_CLEAR_INPUTS \<equiv> 0x04"
abbreviation (input) CTRL_VU_ENABLE :: u8 where "CTRL_VU_ENABLE \<equiv> 0x08"
abbreviation (input) CTRL_BACKLIGHT_ENABLE :: u8 where "CTRL_BACKLIGHT_ENABLE \<equiv> 0x10"
abbreviation (input) CTRL_TAPE_ENABLE :: u8 where "CTRL_TAPE_ENABLE \<equiv> 0x20"
abbreviation (input) CTRL_SAVE_CONFIG :: u8 where "CTRL_SAVE_CONFIG \<equiv> 0x40"
abbreviation (input) CTRL_LOAD_CONFIG :: u8 where "CTRL_LOAD_CONFIG \<equiv> 0x80"

text \<open>REG_STATUS bits.\<close>
abbreviation (input) STATUS_READY :: u8 where "STATUS_READY \<equiv> 0x01"
abbreviation (input) STATUS_ERROR :: u8 where "STATUS_ERROR \<equiv> 0x02"
abbreviation (input) STATUS_VU_ACTIVE :: u8 where "STATUS_VU_ACTIVE \<equiv> 0x04"
abbreviation (input) STATUS_BACKLIGHT_ON :: u8 where "STATUS_BACKLIGHT_ON \<equiv> 0x08"
abbreviation (input) STATUS_TAPE_RUNNING :: u8 where "STATUS_TAPE_RUNNING \<equiv> 0x10"
abbreviation (input) STATUS_INPUT_CHANGED :: u8 where "STATUS_INPUT_CHANGED \<equiv> 0x20"
abbreviation (input) STATUS_ENCODER_CHANGED :: u8 where "STATUS_ENCODER_CHANGED \<equiv> 0x40"
abbreviation (input) STATUS_BUTTON_PRESSED :: u8 where "STATUS_BUTTON_PRESSED \<equiv> 0x80"

text \<open>REG_ERROR bits.\<close>
abbreviation (input) ERROR_I2C_OVERFLOW :: u8 where "ERROR_I2C_OVERFLOW \<equiv> 0x01"
abbreviation (input) ERROR_INVALID_REG :: u8 where "ERROR_INVALID_REG \<equiv> 0x02"
abbreviation (input) ERROR_INVALID_CMD :: u8 where "ERROR_INVALID_CMD \<equiv> 0x04"

text \<open>Mode, direction and button codes.\<close>
abbreviation (input) VU_MODE_NORMAL :: u8 where "VU_MODE_NORMAL \<equiv> 0x00"
abbreviation (input) VU_MODE_OFF :: u8 where "VU_MODE_OFF \<equiv> 0xFF"
abbreviation (input) BACKLIGHT_MODE_MANUAL :: u8 where "BACKLIGHT_MODE_MANUAL \<equiv> 0x00"
abbreviation (input) BACKLIGHT_MODE_OFF :: u8 where "BACKLIGHT_MODE_OFF \<equiv> 0xFF"
abbreviation (input) TAPE_DIR_STOP :: u8 where "TAPE_DIR_STOP \<equiv> 0x00"
abbreviation (input) TAPE_DIR_FORWARD :: u8 where "TAPE_DIR_FORWARD \<equiv> 0x01"
abbreviation (input) TAPE_DIR_REVERSE :: u8 where "TAPE_DIR_REVERSE \<equiv> 0x02"
abbreviation (input) TAPE_DIR_BRAKE :: u8 where "TAPE_DIR_BRAKE \<equiv> 0x03"
abbreviation (input) TAPE_MODE_MANUAL :: u8 where "TAPE_MODE_MANUAL \<equiv> 0x00"
abbreviation (input) TAPE_MODE_OFF :: u8 where "TAPE_MODE_OFF \<equiv> 0xFF"
abbreviation (input) ENC_BTN_RELEASED :: u8 where "ENC_BTN_RELEASED \<equiv> 0x00"
abbreviation (input) ENC_BTN_PRESSED :: u8 where "ENC_BTN_PRESSED \<equiv> 0x01"
abbreviation (input) ENC_BTN_HELD :: u8 where "ENC_BTN_HELD \<equiv> 0x02"
abbreviation (input) ENC_BTN_DOUBLE_CLICK :: u8 where "ENC_BTN_DOUBLE_CLICK \<equiv> 0x03"

text \<open>Command codes; all ten are defined by the header.\<close>
abbreviation (input) CMD_NOP :: u8 where "CMD_NOP \<equiv> 0x00"
abbreviation (input) CMD_RESET :: u8 where "CMD_RESET \<equiv> 0x01"
abbreviation (input) CMD_FACTORY_RESET :: u8 where "CMD_FACTORY_RESET \<equiv> 0x02"
abbreviation (input) CMD_CALIBRATE_VU :: u8 where "CMD_CALIBRATE_VU \<equiv> 0x10"
abbreviation (input) CMD_TEST_VU_LEFT :: u8 where "CMD_TEST_VU_LEFT \<equiv> 0x11"
abbreviation (input) CMD_TEST_VU_RIGHT :: u8 where "CMD_TEST_VU_RIGHT \<equiv> 0x12"
abbreviation (input) CMD_TEST_VU_BOTH :: u8 where "CMD_TEST_VU_BOTH \<equiv> 0x13"
abbreviation (input) CMD_TEST_BACKLIGHT :: u8 where "CMD_TEST_BACKLIGHT \<equiv> 0x20"
abbreviation (input) CMD_TEST_TAPE_MOTOR :: u8 where "CMD_TEST_TAPE_MOTOR \<equiv> 0x30"
abbreviation (input) CMD_TEST_ALL :: u8 where "CMD_TEST_ALL \<equiv> 0xFF"

abbreviation (input) DEVICE_ID :: u8 where "DEVICE_ID \<equiv> 0x52"
abbreviation (input) FIRMWARE_VERSION_MAJOR :: u8 where "FIRMWARE_VERSION_MAJOR \<equiv> 1"
abbreviation (input) FIRMWARE_VERSION_MINOR :: u8 where "FIRMWARE_VERSION_MINOR \<equiv> 0"
abbreviation (input) FIRMWARE_VERSION_PATCH :: u8 where "FIRMWARE_VERSION_PATCH \<equiv> 0"

section \<open>pin_config.h\<close>

abbreviation (input) NUM_DIGITAL_INPUTS :: nat where "NUM_DIGITAL_INPUTS \<equiv> 12"
abbreviation (input) INPUT_DEBOUNCE_MS :: nat where "INPUT_DEBOUNCE_MS \<equiv> 50"

abbreviation (input) PIN_VU_LEFT_IN1 :: nat where "PIN_VU_LEFT_IN1 \<equiv> 0"
abbreviation (input) PIN_VU_LEFT_IN2 :: nat where "PIN_VU_LEFT_IN2 \<equiv> 1"
abbreviation (input) PIN_VU_RIGHT_IN1 :: nat where "PIN_VU_RIGHT_IN1 \<equiv> 4"
abbreviation (input) PIN_VU_RIGHT_IN2 :: nat where "PIN_VU_RIGHT_IN2 \<equiv> 5"
abbreviation (input) PIN_BACKLIGHT_IN1 :: nat where "PIN_BACKLIGHT_IN1 \<equiv> 6"
abbreviation (input) PIN_BACKLIGHT_IN2 :: nat where "PIN_BACKLIGHT_IN2 \<equiv> 7"
abbreviation (input) PIN_TAPE_MOTOR_IN1 :: nat where "PIN_TAPE_MOTOR_IN1 \<equiv> 8"
abbreviation (input) PIN_TAPE_MOTOR_IN2 :: nat where "PIN_TAPE_MOTOR_IN2 \<equiv> 9"

section \<open>main.cpp: the global variables\<close>

text \<open>
  One record holds the globals of main.cpp (and loop's static last_update).  pwm records
  the duty last written to each PWM pin by analogWrite.  The serial console is left out.
\<close>

record state =
  registers :: bank
  current_register :: u8
  input_state_low :: u8
  input_state_high :: u8
  input_prev_low :: u8
  input_prev_high :: u8
  input_last_change :: "nat \<Rightarrow> u32"
  encoder_position :: i16
  encoder_delta :: i8
  encoder_state :: u8
  encoder_button_state :: u8
  encoder_button_press_time :: u32
  encoder_button_last_release :: u32
  last_update :: u32
  led_last_blink :: u32
  led_state :: bool
  pwm :: "nat \<Rightarrow> u8"

text \<open>The globals as their initialisers leave them, with the bank of a static object (zero).\<close>

definition boot_state :: state where
  "boot_state =
     \<lparr> registers = (\<lambda>_. 0), current_register = 0,
       input_state_low = 0xFF, input_state_high = 0x0F,
       input_prev_low = 0xFF, input_prev_high = 0x0F,
       input_last_change = (\<lambda>_. 0),
       encoder_position = 0, encoder_delta = 0, encoder_state = 0,
       encoder_button_state = ENC_BTN_RELEASED,
       encoder_button_press_time = 0, encoder_button_last_release = 0,
       last_update = 0, led_last_blink = 0, led_state = False,
       pwm = (\<lambda>_. 0) \<rparr>"

section \<open>Register functions\<close>

text \<open>i2c_registers_init: memset to zero, then the defaults.  Only the bank is touched.\<close>

definition i2c_registers_init :: "state \<Rightarrow> state" where
  "i2c_registers_init s =
     s\<lparr>registers :=
         (\<lambda>_. 0)
          (REG_DEVICE_ID := DEVICE_ID,
           REG_FIRMWARE_VER_MAJ := FIRMWARE_VERSION_MAJOR,
           REG_FIRMWARE_VER_MIN := FIRMWARE_VERSION_MINOR,
           REG_FIRMWARE_VER_PATCH := FIRMWARE_VERSION_PATCH,
           REG_CONTROL := CTRL_ENABLE,
           REG_STATUS := STATUS_READY,
           REG_VU_MODE := VU_MODE_NORMAL,
           REG_BACKLIGHT := 128,
           REG_BACKLIGHT_MODE := BACKLIGHT_MODE_MANUAL,
           REG_TAPE_DIRECTION := TAPE_DIR_STOP,
           REG_TAPE_MODE := TAPE_MODE_MANUAL,
           REG_INPUT_STATUS_LOW := 0xFF,
           REG_INPUT_STATUS_HIGH := 0x0F,
           REG_CONFIG_VU_FREQ := 1,
           REG_CONFIG_DEBOUNCE := of_nat INPUT_DEBOUNCE_MS)\<rparr>"

text \<open>Helpers for the read-modify-write of one bank byte: b |= m and b &= ~m.\<close>

definition reg_or :: "u8 \<Rightarrow> u8 \<Rightarrow> state \<Rightarrow> state" where
  "reg_or a m s = s\<lparr>registers := (registers s)(a := registers s a OR m)\<rparr>"

definition reg_clear :: "u8 \<Rightarrow> u8 \<Rightarrow> state \<Rightarrow> state" where
  "reg_clear a m s = s\<lparr>registers := (registers s)(a := registers s a AND NOT m)\<rparr>"

definition reg_set :: "u8 \<Rightarrow> u8 \<Rightarrow> state \<Rightarrow> state" where
  "reg_set a v s = s\<lparr>registers := (registers s)(a := v)\<rparr>"

text \<open>i2c_register_read returns the byte and the state after the read-side effects.\<close>

definition i2c_register_read :: "u8 \<Rightarrow> state \<Rightarrow> u8 \<times> state" where
  "i2c_register_read reg_addr s =
     (if reg_addr \<ge> SIZEOF_BANK then (0xFF, reg_or REG_ERROR ERROR_INVALID_REG s)
      else
        let v = registers s reg_addr in
        if reg_addr = REG_INPUT_CHANGED_LOW then
          (let s1 = reg_set REG_INPUT_CHANGED_LOW 0 s in
           (v, if registers s1 REG_INPUT_CHANGED_HIGH = 0
               then reg_clear REG_STATUS STATUS_INPUT_CHANGED s1 else s1))
        else if reg_addr = REG_INPUT_CHANGED_HIGH then
          (let s1 = reg_set REG_INPUT_CHANGED_HIGH 0 s in
           (v, if registers s1 REG_INPUT_CHANGED_LOW = 0
               then reg_clear REG_STATUS STATUS_INPUT_CHANGED s1 else s1))
        else if reg_addr = REG_ENCODER_DELTA then
          (v, reg_clear REG_STATUS STATUS_ENCODER_CHANGED s)
        else (v, s))"

text \<open>i2c_execute_command: the switch has cases for eight codes; everything else is default.\<close>

definition i2c_execute_command :: "u8 \<Rightarrow> state \<Rightarrow> bool \<times> state" where
  "i2c_execute_command command s =
     (if command = CMD_NOP then (True, s)
      else if command = CMD_RESET then (True, i2c_registers_init s)
      else if command = CMD_TEST_VU_LEFT \<or> command = CMD_TEST_VU_RIGHT
            \<or> command = CMD_TEST_VU_BOTH \<or> command = CMD_TEST_BACKLIGHT
            \<or> command = CMD_TEST_TAPE_MOTOR \<or> command = CMD_TEST_ALL then (True, s)
      else (False, reg_or REG_ERROR ERROR_INVALID_CMD s))"

text \<open>The CONTROL side effects of i2c_register_write, on the state after the store.\<close>

definition control_reset_encoder :: "state \<Rightarrow> state" where
  "control_reset_encoder s =
     reg_clear REG_CONTROL CTRL_RESET_ENCODER
       (reg_set REG_ENCODER_DELTA 0
         (reg_set REG_ENCODER_POS_HIGH 0
           (reg_set REG_ENCODER_POS_LOW 0
             (s\<lparr>encoder_position := 0, encoder_delta := 0\<rparr>))))"

definition control_clear_inputs :: "state \<Rightarrow> state" where
  "control_clear_inputs s =
     reg_clear REG_CONTROL CTRL_CLEAR_INPUTS
       (reg_clear REG_STATUS STATUS_INPUT_CHANGED
         (reg_set REG_INPUT_CHANGED_HIGH 0
           (reg_set REG_INPUT_CHANGED_LOW 0 s)))"

definition i2c_register_write :: "u8 \<Rightarrow> u8 \<Rightarrow> state \<Rightarrow> bool \<times> state" where
  "i2c_register_write reg_addr val s =
     (if reg_addr \<le> 0x03 then (False, reg_or REG_ERROR ERROR_INVALID_REG s)
      else if reg_addr = REG_COMMAND then i2c_execute_command val s
      else if reg_addr \<ge> SIZEOF_BANK then (False, reg_or REG_ERROR ERROR_INVALID_REG s)
      else
        let s1 = reg_set reg_addr val s in
        if reg_addr = REG_CONTROL then
          (let s2 = (if val AND CTRL_RESET_ENCODER \<noteq> 0 then control_reset_encoder s1 else s1);
               s3 = (if val AND CTRL_CLEAR_INPUTS \<noteq> 0 then control_clear_inputs s2 else s2)
           in (True, s3))
        else (True, s1))"

section \<open>I2C handlers\<close>

text \<open>
  i2c_receive_handler gets the bytes of one write transaction (Wire1.read yields them in
  order; byte_count is their number): the first sets the pointer, each further byte is
  written at the pointer, which then moves on (uint8_t, so it wraps).
\<close>

fun receive_bytes :: "u8 list \<Rightarrow> state \<Rightarrow> state" where
  "receive_bytes [] s = s"
| "receive_bytes (v # vs) s =
     (let s1 = snd (i2c_register_write (current_register s) v s)
      in receive_bytes vs (s1\<lparr>current_register := current_register s1 + 1\<rparr>))"

definition i2c_receive_handler :: "u8 list \<Rightarrow> state \<Rightarrow> state" where
  "i2c_receive_handler bytes s =
     (case bytes of [] \<Rightarrow> s
      | a # vs \<Rightarrow> receive_bytes vs (s\<lparr>current_register := a\<rparr>))"

text \<open>i2c_request_handler: the byte sent to the host, and the state afterwards.\<close>

definition i2c_request_handler :: "state \<Rightarrow> u8 \<times> state" where
  "i2c_request_handler s =
     (let (v, s1) = i2c_register_read (current_register s) s
      in (v, s1\<lparr>current_register := current_register s1 + 1\<rparr>))"

section \<open>Encoder\<close>

text \<open>transition_table[previous][new], int8_t entries.\<close>

definition transition_table :: "i8 list list" where
  "transition_table =
     [[ 0, -1,  1,  0],
      [ 1,  0,  0, -1],
      [-1,  0,  0,  1],
      [ 0,  1, -1,  0]]"

text \<open>
  encoder_isr, given the levels digitalRead returns for channels A and B.  The two
  compound assignments are plain += on int16_t and int8_t: the sum is computed in int and
  converted back, which keeps the low 16 and 8 bits.
\<close>

definition encoder_isr :: "bool \<times> bool \<Rightarrow> state \<Rightarrow> state" where
  "encoder_isr ab s =
     (let a = (of_bool (fst ab) :: u8);
          b = (of_bool (snd ab) :: u8);
          new_state = push_bit 1 a OR b;
          delta = transition_table ! unat (encoder_state s) ! unat new_state;
          s1 = s\<lparr>encoder_state := new_state\<rparr>
      in if delta \<noteq> 0
         then s1\<lparr>encoder_position := encoder_position s1 + scast delta,
                 encoder_delta := encoder_delta s1 + delta\<rparr>
         else s1)"

text \<open>
  update_encoder: pos & 0xFF and (pos >> 8) & 0xFF are computed on the int that pos is
  promoted to (sign extended, arithmetic shift) and stored into a byte.
\<close>

definition update_encoder :: "state \<Rightarrow> state" where
  "update_encoder s =
     (let pos = encoder_position s;
          delta = encoder_delta s;
          s1 = s\<lparr>encoder_delta := 0\<rparr>;
          s2 = reg_set REG_ENCODER_POS_LOW (ucast ((scast pos :: u32) AND 0xFF)) s1;
          s3 = reg_set REG_ENCODER_POS_HIGH
                 (ucast (signed_drop_bit 8 (scast pos :: u32) AND 0xFF)) s2;
          s4 = reg_set REG_ENCODER_DELTA delta s3
      in if delta \<noteq> 0 then reg_or REG_STATUS STATUS_ENCODER_CHANGED s4 else s4)"

section \<open>Digital inputs and encoder button\<close>

text \<open>
  One pass of the for loop of update_inputs, for channel i.  st is the level read from
  the channel's pin, old_low and old_high are input_state_low and input_state_high (not assigned
  inside the loop), and the triple holds new_state_low, new_state_high and
  input_last_change.  The test compares the bool st, promoted to 0 or 1, with the masked
  byte, which is 0 or 1 << (i % 8); both fit a byte.  The window is the macro
  INPUT_DEBOUNCE_MS; now - input_last_change[i] is unsigned 32-bit arithmetic.
  put_bit c k x stands for the pattern the loop body repeats six times,
  if (c) x |= (1 << k); else x &= ~(1 << k); on a byte x.
\<close>

definition put_bit :: "bool \<Rightarrow> nat \<Rightarrow> u8 \<Rightarrow> u8" where
  "put_bit c k x = (if c then x OR push_bit k 1 else x AND NOT (push_bit k 1))"

definition debounce_channel ::
  "u32 \<Rightarrow> (nat \<Rightarrow> bool) \<Rightarrow> u8 \<Rightarrow> u8 \<Rightarrow> nat \<Rightarrow> u8 \<times> u8 \<times> (nat \<Rightarrow> u32) \<Rightarrow> u8 \<times> u8 \<times> (nat \<Rightarrow> u32)"
where
  "debounce_channel now pins old_low old_high i acc =
     (case acc of (new_state_low, new_state_high, last_change) \<Rightarrow>
      let st = pins i in
      if (of_bool st :: u8) \<noteq> (if i < 8 then old_low else old_high) AND push_bit (i mod 8) 1 then
        if now - last_change i \<ge> of_nat INPUT_DEBOUNCE_MS then
          (if i < 8 then (put_bit st i new_state_low, new_state_high, last_change(i := now))
           else (new_state_low, put_bit st (i - 8) new_state_high, last_change(i := now)))
        else
          (if i < 8
           then (put_bit (old_low AND push_bit i 1 \<noteq> 0) i new_state_low, new_state_high, last_change)
           else (new_state_low, put_bit (old_high AND push_bit (i - 8) 1 \<noteq> 0) (i - 8) new_state_high,
                 last_change))
      else
        (if i < 8 then (put_bit st i new_state_low, new_state_high, last_change)
         else (new_state_low, put_bit st (i - 8) new_state_high, last_change)))"

text \<open>
  The encoder button part of update_inputs: btn_pressed is the negated pin level and
  now_ms the second reading of millis().
\<close>

definition update_button :: "bool \<Rightarrow> u32 \<Rightarrow> state \<Rightarrow> state" where
  "update_button btn_pressed now_ms s =
     (let s' =
        (if btn_pressed \<and> encoder_button_state s = ENC_BTN_RELEASED then
           (let s1 = reg_or REG_STATUS STATUS_BUTTON_PRESSED
                       (s\<lparr>encoder_button_state := ENC_BTN_PRESSED,
                          encoder_button_press_time := now_ms\<rparr>)
            in if now_ms - encoder_button_last_release s1 < 300
               then s1\<lparr>encoder_button_state := ENC_BTN_DOUBLE_CLICK\<rparr> else s1)
         else if btn_pressed \<and> encoder_button_state s = ENC_BTN_PRESSED then
           (if now_ms - encoder_button_press_time s \<ge> 1000
            then s\<lparr>encoder_button_state := ENC_BTN_HELD\<rparr> else s)
         else if \<not> btn_pressed \<and> encoder_button_state s \<noteq> ENC_BTN_RELEASED then
           reg_clear REG_STATUS STATUS_BUTTON_PRESSED
             (s\<lparr>encoder_button_last_release := now_ms,
                encoder_button_state := ENC_BTN_RELEASED\<rparr>)
         else s)
      in reg_set REG_ENCODER_BUTTON (encoder_button_state s') s')"

text \<open>
  What update_inputs reads from outside: the two readings of millis(), the levels of the
  twelve input pins (by channel) and the level of the button pin (active low).
\<close>

record inputs =
  now_in :: u32
  pin_level :: "nat \<Rightarrow> bool"
  now_btn :: u32
  btn_level :: bool

definition update_inputs :: "inputs \<Rightarrow> state \<Rightarrow> state" where
  "update_inputs env s =
     (case fold (debounce_channel (now_in env) (pin_level env)
                   (input_state_low s) (input_state_high s))
                [0 ..< NUM_DIGITAL_INPUTS]
                (0xFF, 0x0F, input_last_change s)
      of (new_state_low, new_state_high, last_change) \<Rightarrow>
      let changed_low = input_state_low s XOR new_state_low;
          changed_high = input_state_high s XOR new_state_high;
          s1 = s\<lparr>input_last_change := last_change\<rparr>;
          s2 = (if changed_low \<noteq> 0 \<or> changed_high \<noteq> 0
                then reg_or REG_STATUS STATUS_INPUT_CHANGED
                       (reg_or REG_INPUT_CHANGED_HIGH changed_high
                         (reg_or REG_INPUT_CHANGED_LOW changed_low s1))
                else s1);
          s3 = s2\<lparr>input_state_low := new_state_low, input_state_high := new_state_high\<rparr>;
          s4 = reg_set REG_INPUT_STATUS_HIGH (input_state_high s3)
                 (reg_set REG_INPUT_STATUS_LOW (input_state_low s3) s3)
      in update_button (\<not> btn_level env) (now_btn env) s4)"

section \<open>PWM outputs\<close>

definition analogWrite :: "nat \<Rightarrow> u8 \<Rightarrow> state \<Rightarrow> state" where
  "analogWrite pin duty s = s\<lparr>pwm := (pwm s)(pin := duty)\<rparr>"

definition update_pwm_outputs :: "state \<Rightarrow> state" where
  "update_pwm_outputs s =
     (let vu_enabled = (registers s REG_CONTROL AND CTRL_VU_ENABLE \<noteq> 0);
          backlight_enabled = (registers s REG_CONTROL AND CTRL_BACKLIGHT_ENABLE \<noteq> 0);
          tape_enabled = (registers s REG_CONTROL AND CTRL_TAPE_ENABLE \<noteq> 0);
          s1 = (if vu_enabled \<and> registers s REG_VU_MODE \<noteq> VU_MODE_OFF then
                  reg_or REG_STATUS STATUS_VU_ACTIVE
                    (analogWrite PIN_VU_RIGHT_IN2 0
                      (analogWrite PIN_VU_RIGHT_IN1 (registers s REG_VU_RIGHT)
                        (analogWrite PIN_VU_LEFT_IN2 0
                          (analogWrite PIN_VU_LEFT_IN1 (registers s REG_VU_LEFT) s))))
                else
                  reg_clear REG_STATUS STATUS_VU_ACTIVE
                    (analogWrite PIN_VU_RIGHT_IN2 0
                      (analogWrite PIN_VU_RIGHT_IN1 0
                        (analogWrite PIN_VU_LEFT_IN2 0
                          (analogWrite PIN_VU_LEFT_IN1 0 s)))));
          s2 = (if backlight_enabled \<and> registers s1 REG_BACKLIGHT_MODE \<noteq> BACKLIGHT_MODE_OFF then
                  reg_or REG_STATUS STATUS_BACKLIGHT_ON
                    (analogWrite PIN_BACKLIGHT_IN2 0
                      (analogWrite PIN_BACKLIGHT_IN1 (registers s1 REG_BACKLIGHT) s1))
                else
                  reg_clear REG_STATUS STATUS_BACKLIGHT_ON
                    (analogWrite PIN_BACKLIGHT_IN2 0 (analogWrite PIN_BACKLIGHT_IN1 0 s1)));
          dir = registers s2 REG_TAPE_DIRECTION;
          speed = registers s2 REG_TAPE_SPEED
      in if tape_enabled \<and> registers s2 REG_TAPE_MODE \<noteq> TAPE_MODE_OFF then
           (if dir = TAPE_DIR_FORWARD then
              reg_or REG_STATUS STATUS_TAPE_RUNNING
                (analogWrite PIN_TAPE_MOTOR_IN2 0 (analogWrite PIN_TAPE_MOTOR_IN1 speed s2))
            else if dir = TAPE_DIR_REVERSE then
              reg_or REG_STATUS STATUS_TAPE_RUNNING
                (analogWrite PIN_TAPE_MOTOR_IN2 speed (analogWrite PIN_TAPE_MOTOR_IN1 0 s2))
            else if dir = TAPE_DIR_BRAKE then
              reg_clear REG_STATUS STATUS_TAPE_RUNNING
                (analogWrite PIN_TAPE_MOTOR_IN2 255 (analogWrite PIN_TAPE_MOTOR_IN1 255 s2))
            else
              reg_clear REG_STATUS STATUS_TAPE_RUNNING
                (analogWrite PIN_TAPE_MOTOR_IN2 0 (analogWrite PIN_TAPE_MOTOR_IN1 0 s2)))
         else
           reg_clear REG_STATUS STATUS_TAPE_RUNNING
             (analogWrite PIN_TAPE_MOTOR_IN2 0 (analogWrite PIN_TAPE_MOTOR_IN1 0 s2)))"

section \<open>Main loop\<close>

text \<open>
  One pass of loop(): now is its reading of millis().  The body runs when at least 10 ms
  have passed since last_update; it is the 10 ms tick.
\<close>

definition loop :: "u32 \<Rightarrow> inputs \<Rightarrow> state \<Rightarrow> state" where
  "loop now env s =
     (if now - last_update s \<ge> 10 then
        (let s1 = s\<lparr>last_update := now\<rparr>;
             s2 = update_inputs env s1;
             s3 = update_encoder s2;
             s4 = update_pwm_outputs s3
         in if now - led_last_blink s4 \<ge> 500
            then s4\<lparr>led_last_blink := now, led_state := \<not> led_state s4\<rparr>
            else s4)
      else s)"

text \<open>The state the boot routine leaves: the bank initialised, status set to STATUS_READY.\<close>

definition after_boot :: state where
  "after_boot = reg_set REG_STATUS STATUS_READY (i2c_registers_init boot_state)"

section \<open>Interrupt handlers inside the tick\<close>

text \<open>
  update_encoder masks interrupts only while it copies encoder_position and encoder_delta
  and clears encoder_delta (noInterrupts() to interrupts()); the three stores into the
  bank and the status update come after interrupts().  The I2C callbacks run in interrupt
  context, so one can run between the two parts.  encoder_snapshot is the masked part,
  returning the local variables pos and delta; encoder_publish is the part after it.
\<close>

definition encoder_snapshot :: "state \<Rightarrow> (i16 \<times> i8) \<times> state" where
  "encoder_snapshot s = ((encoder_position s, encoder_delta s), s\<lparr>encoder_delta := 0\<rparr>)"

definition encoder_publish :: "i16 \<times> i8 \<Rightarrow> state \<Rightarrow> state" where
  "encoder_publish snap s =
     (let pos = fst snap;
          delta = snd snap;
          s2 = reg_set REG_ENCODER_POS_LOW (ucast ((scast pos :: u32) AND 0xFF)) s;
          s3 = reg_set REG_ENCODER_POS_HIGH
                 (ucast (signed_drop_bit 8 (scast pos :: u32) AND 0xFF)) s2;
          s4 = reg_set REG_ENCODER_DELTA delta s3
      in if delta \<noteq> 0 then reg_or REG_STATUS STATUS_ENCODER_CHANGED s4 else s4)"

text \<open>
  One pass of loop() in which an interrupt handler runs once, right after the
  interrupts() of update_encoder.  With the identity for the handler it is loop.
\<close>

definition loop_preempted :: "u32 \<Rightarrow> inputs \<Rightarrow> (state \<Rightarrow> state) \<Rightarrow> state \<Rightarrow> state" where
  "loop_preempted now env handler s =
     (if now - last_update s \<ge> 10 then
        (let s1 = s\<lparr>last_update := now\<rparr>;
             s2 = update_inputs env s1;
             snap = encoder_snapshot s2;
             s3 = encoder_publish (fst snap) (handler (snd snap));
             s4 = update_pwm_outputs s3
         in if now - led_last_blink s4 \<ge> 500
            then s4\<lparr>led_last_blink := now, led_state := \<not> led_state s4\<rparr>
            else s4)
      else s)"

section \<open>Net displacement of a sequence of encoder edges\<close>

text \<open>
  The net displacement d of the specification: the sum, as an unbounded integer, of the
  transition_table entries met along a sequence of (A, B) pin readings, starting from the
  previous quadrature state prev.  It is the yardstick that encoder_isr is compared with,
  not part of the firmware.
\<close>

fun net_displacement :: "u8 \<Rightarrow> (bool \<times> bool) list \<Rightarrow> int" where
  "net_displacement prev [] = 0"
| "net_displacement prev (ab # es) =
     (let new_state = push_bit 1 (of_bool (fst ab) :: u8) OR of_bool (snd ab)
      in sint (transition_table ! unat prev ! unat new_state) + net_displacement new_state es)"

text \<open>One full turn of four edges, each worth +1 from state 00: 10, 11, 01, 00.\<close>

definition cw_cycle :: "(bool \<times> bool) list" where
  "cw_cycle = [(True, False), (True, True), (False, True), (False, False)]"

section \<open>The stable bit of a channel\<close>

text \<open>
  Channel i (0 to 11) has its debounced bit at bit i of input_state_low for i < 8 and at
  bit i - 8 of input_state_high otherwise.  chan_bit reads the same position in the pair
  of bytes that the loop of update_inputs builds.
\<close>

definition stable_bit :: "state \<Rightarrow> nat \<Rightarrow> bool" where
  "stable_bit s i = (if i < 8 then bit (input_state_low s) i else bit (input_state_high s) (i - 8))"

definition chan_bit :: "u8 \<times> u8 \<times> (nat \<Rightarrow> u32) \<Rightarrow> nat \<Rightarrow> bool" where
  "chan_bit acc i = (if i < 8 then bit (fst acc) i else bit (fst (snd acc)) (i - 8))"

section \<open>Auxiliary facts\<close>

lemmas reg_defs = reg_or_def reg_clear_def reg_set_def

lemma and_mask_bit1: "(v AND (2::u8) \<noteq> 0) = bit v 1"
  using and_exp_eq_0_iff_not_bit[of v 1] by simp

lemma and_mask_bit2: "(v AND (4::u8) \<noteq> 0) = bit v 2"
  using and_exp_eq_0_iff_not_bit[of v 2] by simp

lemma control_after_write:
  "registers (snd (i2c_register_write REG_CONTROL v s)) REG_CONTROL =
     (let c1 = (if v AND CTRL_RESET_ENCODER \<noteq> 0 then v AND NOT CTRL_RESET_ENCODER else v)
      in if v AND CTRL_CLEAR_INPUTS \<noteq> 0 then c1 AND NOT CTRL_CLEAR_INPUTS else c1)"
  by (simp add: i2c_register_write_def reg_defs control_reset_encoder_def
      control_clear_inputs_def Let_def del: bit.compl_one bit.compl_zero)

subsection \<open>Bytes of the encoder position\<close>

lemma low_byte: "ucast ((scast (pos::i16) :: u32) AND 0xFF) = (ucast pos :: u8)"
proof -
  have m: "(0xFF::u32) = mask 8" by (simp add: mask_eq_exp_minus_1)
  show ?thesis unfolding m
    by (rule bit_word_eqI) (auto simp add: bit_simps)
qed

lemma high_byte: "ucast (signed_drop_bit 8 (scast (pos::i16) :: u32) AND 0xFF) = (ucast (drop_bit 8 pos) :: u8)"
proof -
  have m: "(0xFF::u32) = mask 8" by (simp add: mask_eq_exp_minus_1)
  show ?thesis unfolding m
    by (rule bit_word_eqI) (auto simp add: bit_simps)
qed

subsection \<open>What the parts of a tick leave alone\<close>

lemma update_button_frame:
  "encoder_position (update_button b t s) = encoder_position s"
  "encoder_delta (update_button b t s) = encoder_delta s"
  "encoder_state (update_button b t s) = encoder_state s"
  "last_update (update_button b t s) = last_update s"
  "led_last_blink (update_button b t s) = led_last_blink s"
  by (simp_all add: update_button_def Let_def reg_defs)

lemma update_button_regs:
  "a \<noteq> REG_STATUS \<Longrightarrow> a \<noteq> REG_ENCODER_BUTTON \<Longrightarrow>
   registers (update_button b t s) a = registers s a"
  by (simp add: update_button_def Let_def reg_defs)

lemma update_button_status_bit1:
  "bit (registers (update_button b t s) REG_STATUS) (Suc 0) = bit (registers s REG_STATUS) (Suc 0)"
  by (simp add: update_button_def Let_def reg_defs bit_simps)

lemma update_inputs_frame:
  "encoder_position (update_inputs env s) = encoder_position s"
  "encoder_delta (update_inputs env s) = encoder_delta s"
  "encoder_state (update_inputs env s) = encoder_state s"
  "last_update (update_inputs env s) = last_update s"
  "led_last_blink (update_inputs env s) = led_last_blink s"
  by (simp_all add: update_inputs_def Let_def reg_defs update_button_frame split: prod.splits)

lemma update_inputs_regs:
  "a \<notin> {REG_STATUS, REG_ENCODER_BUTTON, REG_INPUT_CHANGED_LOW, REG_INPUT_CHANGED_HIGH,
         REG_INPUT_STATUS_LOW, REG_INPUT_STATUS_HIGH} \<Longrightarrow>
   registers (update_inputs env s) a = registers s a"
  by (simp add: update_inputs_def Let_def reg_defs update_button_regs split: prod.splits)

lemma update_inputs_status_bit1:
  "bit (registers (update_inputs env s) REG_STATUS) (Suc 0) = bit (registers s REG_STATUS) (Suc 0)"
  by (simp add: update_inputs_def Let_def reg_defs update_button_status_bit1 bit_simps split: prod.splits)

lemma update_encoder_regs:
  "a \<notin> {REG_STATUS, REG_ENCODER_POS_LOW, REG_ENCODER_POS_HIGH, REG_ENCODER_DELTA} \<Longrightarrow>
   registers (update_encoder s) a = registers s a"
  by (simp add: update_encoder_def Let_def reg_defs)

lemma update_encoder_status_bit1:
  "bit (registers (update_encoder s) REG_STATUS) (Suc 0) = bit (registers s REG_STATUS) (Suc 0)"
  by (simp add: update_encoder_def Let_def reg_defs bit_simps)

lemma update_encoder_publishes:
  "registers (update_encoder s) REG_ENCODER_POS_LOW = ucast (encoder_position s)"
  "registers (update_encoder s) REG_ENCODER_POS_HIGH = ucast (drop_bit 8 (encoder_position s))"
  "registers (update_encoder s) REG_ENCODER_DELTA = encoder_delta s"
  "encoder_delta (update_encoder s) = 0"
  "encoder_position (update_encoder s) = encoder_position s"
  by (simp_all add: update_encoder_def Let_def reg_defs low_byte high_byte)

lemma analogWrite_frame: "registers (analogWrite p d s) = registers s"
  by (simp add: analogWrite_def)

lemma update_pwm_outputs_regs:
  "a \<noteq> REG_STATUS \<Longrightarrow> registers (update_pwm_outputs s) a = registers s a"
  by (simp add: update_pwm_outputs_def Let_def reg_defs analogWrite_frame)

lemma update_pwm_outputs_status_bit1:
  "bit (registers (update_pwm_outputs s) REG_STATUS) (Suc 0) = bit (registers s REG_STATUS) (Suc 0)"
  by (simp add: update_pwm_outputs_def Let_def reg_defs analogWrite_frame bit_simps)

lemma loop_status_bit1:
  "bit (registers (loop now env s) REG_STATUS) (Suc 0) = bit (registers s REG_STATUS) (Suc 0)"
  by (simp add: loop_def Let_def update_pwm_outputs_status_bit1 update_encoder_status_bit1
      update_inputs_status_bit1)

lemma loop_error_reg:
  "registers (loop now env s) REG_ERROR = registers s REG_ERROR"
  by (simp add: loop_def Let_def update_pwm_outputs_regs update_encoder_regs update_inputs_regs)

lemma loop_publishes_position:
  "now - last_update s \<ge> 10 \<Longrightarrow>
   registers (loop now env s) REG_ENCODER_POS_LOW = ucast (encoder_position s)
   \<and> registers (loop now env s) REG_ENCODER_POS_HIGH = ucast (drop_bit 8 (encoder_position s))
   \<and> registers (loop now env s) REG_ENCODER_DELTA = encoder_delta s"
  by (simp add: loop_def Let_def update_pwm_outputs_regs update_encoder_publishes update_inputs_frame)

subsection \<open>The button fields through a tick\<close>








subsection \<open>The encoder interrupt over a sequence of edges\<close>

lemma encoder_isr_fields:
  "encoder_position (encoder_isr ab s) = encoder_position s
     + word_of_int (sint (transition_table ! unat (encoder_state s)
          ! unat (push_bit 1 (of_bool (fst ab) :: u8) OR of_bool (snd ab))))"
  "encoder_delta (encoder_isr ab s) = encoder_delta s
     + word_of_int (sint (transition_table ! unat (encoder_state s)
          ! unat (push_bit 1 (of_bool (fst ab) :: u8) OR of_bool (snd ab))))"
  "encoder_state (encoder_isr ab s) = push_bit 1 (of_bool (fst ab)) OR of_bool (snd ab)"
  "last_update (encoder_isr ab s) = last_update s"
  by (simp_all add: encoder_isr_def Let_def)

lemma isr_fold:
  "encoder_position (fold encoder_isr es s)
     = encoder_position s + word_of_int (net_displacement (encoder_state s) es)
   \<and> encoder_delta (fold encoder_isr es s)
     = encoder_delta s + word_of_int (net_displacement (encoder_state s) es)
   \<and> last_update (fold encoder_isr es s) = last_update s"
proof (induction es arbitrary: s)
  case Nil
  show ?case by simp
next
  case (Cons ab es)
  show ?case
    using Cons.IH[of "encoder_isr ab s"]
    by (simp add: encoder_isr_fields Let_def)
qed

lemma read_value:
  "reg_addr < SIZEOF_BANK \<Longrightarrow> fst (i2c_register_read reg_addr s) = registers s reg_addr"
  by (auto simp add: i2c_register_read_def Let_def)

lemma sint_wrap8: "sint (word_of_int d :: i8) = (d + 128) mod 256 - 128"
  by (simp add: sint_sbintrunc' signed_take_bit_eq_take_bit_shift take_bit_eq_mod)

lemma sint_small8: "- 128 \<le> d \<Longrightarrow> d \<le> 127 \<Longrightarrow> sint (word_of_int d :: i8) = d"
  by (simp add: sint_wrap8)

lemma cw_cycle_net: "net_displacement 0 (cw_cycle @ es) = 4 + net_displacement 0 es"
  by (simp add: cw_cycle_def transition_table_def Let_def)

lemma cw_turns_net: "net_displacement 0 (concat (replicate n cw_cycle)) = 4 * int n"
  by (induction n) (simp_all add: cw_cycle_net)

lemma encoder_isr_state_range: "encoder_state (encoder_isr ab s) \<le> 3"
  by (cases "fst ab"; cases "snd ab") (simp_all add: encoder_isr_fields)

subsection \<open>The debounce loop, channel by channel\<close>

lemma and_exp_zero: "((x::u8) AND 2 ^ k = 0) = (\<not> bit x k)"
  by (rule and_exp_eq_0_iff_not_bit)

lemma and_exp_clear: "\<not> bit (x::u8) k \<Longrightarrow> x AND 2 ^ k = 0"
  by (simp add: and_exp_zero)

lemma of_bool_eq_masked: "of_bool st = (x::u8) AND 2 ^ k \<Longrightarrow> st = bit x k"
  using and_exp_zero[of x k] by (cases st) auto

lemma bit_put_bit: "bit (put_bit c j x) n = (if n = j \<and> j < 8 then c else bit x n)"
  by (auto simp add: put_bit_def bit_simps dest: bit_imp_le_length)

lemma debounce_channel_other:
  "k \<noteq> i \<Longrightarrow> chan_bit (debounce_channel now pins ol oh i acc) k = chan_bit acc k"
  "k \<noteq> i \<Longrightarrow> snd (snd (debounce_channel now pins ol oh i acc)) k = snd (snd acc) k"
  by (cases acc; auto simp add: debounce_channel_def chan_bit_def Let_def bit_put_bit)+

lemma debounce_channel_self:
  assumes "i < 16"
  shows "chan_bit (debounce_channel now pins ol oh i acc) i =
     (if pins i \<noteq> (if i < 8 then bit ol i else bit oh (i - 8))
         \<and> now - snd (snd acc) i \<ge> 50
      then pins i else (if i < 8 then bit ol i else bit oh (i - 8)))"
proof (cases "i < 8")
  case True
  then have m: "i mod 8 = i" by simp
  show ?thesis using True
    by (cases acc)
      (auto simp add: debounce_channel_def chan_bit_def Let_def bit_put_bit m
        and_exp_zero and_exp_clear dest: of_bool_eq_masked)
next
  case False
  then have m: "i mod 8 = i - 8" "i - 8 < 8" using assms by (simp_all add: mod_if)
  show ?thesis using False
    by (cases acc)
      (auto simp add: debounce_channel_def chan_bit_def Let_def bit_put_bit m
        and_exp_zero and_exp_clear dest: of_bool_eq_masked)
qed

lemma debounce_channel_self_time:
  assumes "i < 16" and "pins i \<noteq> (if i < 8 then bit ol i else bit oh (i - 8))"
  shows "snd (snd (debounce_channel now pins ol oh i acc)) i =
     (if now - snd (snd acc) i \<ge> 50 then now else snd (snd acc) i)"
proof (cases "i < 8")
  case True
  then have m: "i mod 8 = i" by simp
  show ?thesis using True assms(2)
    by (cases acc)
      (auto simp add: debounce_channel_def Let_def m and_exp_zero and_exp_clear
        dest: of_bool_eq_masked)
next
  case False
  then have m: "i mod 8 = i - 8" "i - 8 < 8" using assms by (simp_all add: mod_if)
  show ?thesis using False assms(2)
    by (cases acc)
      (auto simp add: debounce_channel_def Let_def m and_exp_zero and_exp_clear
        dest: of_bool_eq_masked)
qed

lemma fold_debounce_other:
  "k \<notin> set js \<Longrightarrow>
   chan_bit (fold (debounce_channel now pins ol oh) js acc) k = chan_bit acc k
   \<and> snd (snd (fold (debounce_channel now pins ol oh) js acc)) k = snd (snd acc) k"
proof (induction js arbitrary: acc)
  case Nil
  show ?case by simp
next
  case (Cons j js)
  then have "k \<noteq> j" "k \<notin> set js" by auto
  with Cons.IH[of "debounce_channel now pins ol oh j acc"] show ?case
    by (simp add: debounce_channel_other)
qed

lemma fold_debounce_self:
  assumes "distinct js" and "i \<in> set js" and "i < 16"
  shows "chan_bit (fold (debounce_channel now pins ol oh) js acc) i =
     (if pins i \<noteq> (if i < 8 then bit ol i else bit oh (i - 8))
         \<and> now - snd (snd acc) i \<ge> 50
      then pins i else (if i < 8 then bit ol i else bit oh (i - 8)))"
  using assms(1,2)
proof (induction js arbitrary: acc)
  case Nil
  then show ?case by simp
next
  case (Cons j js)
  show ?case
  proof (cases "i = j")
    case True
    then have "i \<notin> set js" using Cons.prems(1) by simp
    from fold_debounce_other[OF this, of now pins ol oh "debounce_channel now pins ol oh i acc"]
    show ?thesis using True debounce_channel_self[OF assms(3), of now pins ol oh acc] by simp
  next
    case False
    then have "i \<in> set js" "distinct js" using Cons.prems by auto
    from Cons.IH[OF this(2) this(1), of "debounce_channel now pins ol oh j acc"]
    show ?thesis using False by (simp add: debounce_channel_other)
  qed
qed

lemma fold_debounce_self_time:
  assumes "distinct js" and "i \<in> set js" and "i < 16"
      and "pins i \<noteq> (if i < 8 then bit ol i else bit oh (i - 8))"
  shows "snd (snd (fold (debounce_channel now pins ol oh) js acc)) i =
     (if now - snd (snd acc) i \<ge> 50 then now else snd (snd acc) i)"
  using assms(1,2)
proof (induction js arbitrary: acc)
  case Nil
  then show ?case by simp
next
  case (Cons j js)
  show ?case
  proof (cases "i = j")
    case True
    then have "i \<notin> set js" using Cons.prems(1) by simp
    from fold_debounce_other[OF this, of now pins ol oh "debounce_channel now pins ol oh i acc"]
    show ?thesis
      using True debounce_channel_self_time[where i=i and pins=pins and ol=ol and oh=oh and now=now and acc=acc, OF assms(3) assms(4)] by simp
  next
    case False
    then have "i \<in> set js" "distinct js" using Cons.prems by auto
    from Cons.IH[OF this(2) this(1), of "debounce_channel now pins ol oh j acc"]
    show ?thesis using False by (simp add: debounce_channel_other)
  qed
qed

lemma update_button_inputs_frame:
  "input_state_low (update_button b t s) = input_state_low s"
  "input_state_high (update_button b t s) = input_state_high s"
  "input_last_change (update_button b t s) = input_last_change s"
  by (simp_all add: update_button_def Let_def reg_defs)

lemma update_inputs_fold:
  "stable_bit (update_inputs env s) i =
     chan_bit (fold (debounce_channel (now_in env) (pin_level env)
                      (input_state_low s) (input_state_high s))
                 [0 ..< NUM_DIGITAL_INPUTS] (0xFF, 0x0F, input_last_change s)) i"
  "input_last_change (update_inputs env s) =
     snd (snd (fold (debounce_channel (now_in env) (pin_level env)
                      (input_state_low s) (input_state_high s))
                 [0 ..< NUM_DIGITAL_INPUTS] (0xFF, 0x0F, input_last_change s)))"
  by (simp_all add: update_inputs_def stable_bit_def chan_bit_def Let_def reg_defs
      update_button_inputs_frame split: prod.splits)

lemma update_inputs_commit:
  assumes "i < NUM_DIGITAL_INPUTS"
  shows "stable_bit (update_inputs env s) i =
     (if pin_level env i \<noteq> stable_bit s i
         \<and> now_in env - input_last_change s i \<ge> of_nat INPUT_DEBOUNCE_MS
      then pin_level env i else stable_bit s i)"
proof -
  have d: "distinct [0 ..< NUM_DIGITAL_INPUTS]" and m: "i \<in> set [0 ..< NUM_DIGITAL_INPUTS]"
    and b: "i < 16"
    using assms by simp_all
  show ?thesis
    unfolding update_inputs_fold fold_debounce_self[OF d m b]
    by (simp add: stable_bit_def)
qed

lemma update_inputs_commit_time:
  assumes "i < NUM_DIGITAL_INPUTS" and "pin_level env i \<noteq> stable_bit s i"
  shows "input_last_change (update_inputs env s) i =
     (if now_in env - input_last_change s i \<ge> of_nat INPUT_DEBOUNCE_MS
      then now_in env else input_last_change s i)"
proof -
  have d: "distinct [0 ..< NUM_DIGITAL_INPUTS]" and m: "i \<in> set [0 ..< NUM_DIGITAL_INPUTS]"
    and b: "i < 16"
    using assms by simp_all
  have p: "pin_level env i \<noteq> (if i < 8 then bit (input_state_low s) i
                                 else bit (input_state_high s) (i - 8))"
    using assms(2) by (simp add: stable_bit_def)
  show ?thesis
    unfolding update_inputs_fold fold_debounce_self_time[where i=i and pins="pin_level env" and ol="input_state_low s" and oh="input_state_high s", OF d m b p]
    by simp
qed

lemma write_config_debounce:
  "i2c_register_write REG_CONFIG_DEBOUNCE v s
     = (True, s\<lparr>registers := (registers s)(REG_CONFIG_DEBOUNCE := v)\<rparr>)"
  by (simp add: i2c_register_write_def reg_defs Let_def)


subsection \<open>A write to CONTROL inside the tick\<close>

lemma update_encoder_split:
  "update_encoder s = encoder_publish (fst (encoder_snapshot s)) (snd (encoder_snapshot s))"
  by (simp add: update_encoder_def encoder_publish_def encoder_snapshot_def Let_def)

lemma loop_preempted_id: "loop_preempted now env (\<lambda>s. s) s = loop now env s"
  by (simp add: loop_preempted_def loop_def update_encoder_split Let_def)

lemma encoder_publish_regs:
  "registers (encoder_publish snap s) REG_ENCODER_POS_LOW = ucast (fst snap)"
  "registers (encoder_publish snap s) REG_ENCODER_POS_HIGH = ucast (drop_bit 8 (fst snap))"
  "registers (encoder_publish snap s) REG_ENCODER_DELTA = snd snap"
  "registers (encoder_publish snap s) REG_CONTROL = registers s REG_CONTROL"
  "encoder_position (encoder_publish snap s) = encoder_position s"
  "encoder_delta (encoder_publish snap s) = encoder_delta s"
  by (simp_all add: encoder_publish_def Let_def reg_defs low_byte high_byte)

lemma update_pwm_outputs_encoder:
  "encoder_position (update_pwm_outputs s) = encoder_position s"
  "encoder_delta (update_pwm_outputs s) = encoder_delta s"
  by (simp_all add: update_pwm_outputs_def Let_def reg_defs analogWrite_def)

lemma receive_control_write:
  "i2c_receive_handler [REG_CONTROL, v] s =
     (snd (i2c_register_write REG_CONTROL v (s\<lparr>current_register := REG_CONTROL\<rparr>)))
       \<lparr>current_register := REG_CONTROL + 1\<rparr>"
  by (simp add: i2c_receive_handler_def Let_def i2c_register_write_def reg_defs
      control_reset_encoder_def control_clear_inputs_def)

lemma loop_preempted_reset_write:
  assumes "now - last_update s \<ge> 10" and "bit v 1"
  shows "registers (loop_preempted now env (i2c_receive_handler [REG_CONTROL, v]) s)
           REG_ENCODER_POS_LOW = ucast (encoder_position s)"
    and "registers (loop_preempted now env (i2c_receive_handler [REG_CONTROL, v]) s)
           REG_ENCODER_POS_HIGH = ucast (drop_bit 8 (encoder_position s))"
    and "registers (loop_preempted now env (i2c_receive_handler [REG_CONTROL, v]) s)
           REG_ENCODER_DELTA = encoder_delta s"
    and "encoder_position (loop_preempted now env (i2c_receive_handler [REG_CONTROL, v]) s) = 0"
    and "encoder_delta (loop_preempted now env (i2c_receive_handler [REG_CONTROL, v]) s) = 0"
    and "\<not> bit (registers (loop_preempted now env (i2c_receive_handler [REG_CONTROL, v]) s)
              REG_CONTROL) (Suc 0)"
  using assms
  by (simp_all add: loop_preempted_def Let_def update_pwm_outputs_regs update_pwm_outputs_encoder
      encoder_publish_regs encoder_snapshot_def update_inputs_frame receive_control_write
      i2c_register_write_def reg_defs control_reset_encoder_def control_clear_inputs_def
      and_mask_bit1 bit_simps)


subsection \<open>Bit 1 of STATUS through the register operations\<close>

lemma read_status_bit1:
  "bit (registers (snd (i2c_register_read a s)) REG_STATUS) (Suc 0)
     = bit (registers s REG_STATUS) (Suc 0)"
  by (simp add: i2c_register_read_def Let_def reg_defs bit_simps)

lemma execute_command_status_bit1:
  "bit (registers (snd (i2c_execute_command c s)) REG_STATUS) (Suc 0)
     = (c \<noteq> CMD_RESET \<and> bit (registers s REG_STATUS) (Suc 0))"
  by (simp add: i2c_execute_command_def i2c_registers_init_def reg_defs)

lemma write_status_bit1:
  "bit (registers (snd (i2c_register_write a v s)) REG_STATUS) (Suc 0)
     = (if a = REG_STATUS then bit v (Suc 0)
        else if a = REG_COMMAND then v \<noteq> CMD_RESET \<and> bit (registers s REG_STATUS) (Suc 0)
        else bit (registers s REG_STATUS) (Suc 0))"
  by (simp add: i2c_register_write_def execute_command_status_bit1 Let_def reg_defs
      control_reset_encoder_def control_clear_inputs_def bit_simps)

section \<open>The command port\<close>

text \<open>The codes that i2c_execute_command accepts are exactly the eight of its switch.\<close>

lemma execute_command_accepted_codes:
  "fst (i2c_execute_command c s) =
     (c \<in> {CMD_NOP, CMD_RESET, CMD_TEST_VU_LEFT, CMD_TEST_VU_RIGHT, CMD_TEST_VU_BOTH,
            CMD_TEST_BACKLIGHT, CMD_TEST_TAPE_MOTOR, CMD_TEST_ALL})"
  by (simp add: i2c_execute_command_def)

lemma execute_command_error_bit:
  "bit (registers (snd (i2c_execute_command c s)) REG_ERROR) 2 =
     (bit (registers s REG_ERROR) 2 \<and> c \<noteq> CMD_RESET \<or> \<not> fst (i2c_execute_command c s))"
  by (simp add: i2c_execute_command_def reg_or_def i2c_registers_init_def bit_simps)

text \<open>
  Claim C2 says that each of the ten command codes of the header is accepted.  The switch
  of i2c_execute_command has no case for CMD_FACTORY_RESET (0x02) nor for CMD_CALIBRATE_VU
  (0x10): both fall to default, which returns false and sets ERROR_INVALID_CMD, in every
  state.
\<close>

theorem execute_command_rejects_factory_reset_and_calibrate:
  "i2c_execute_command CMD_FACTORY_RESET s = (False, reg_or REG_ERROR ERROR_INVALID_CMD s)
   \<and> i2c_execute_command CMD_CALIBRATE_VU s = (False, reg_or REG_ERROR ERROR_INVALID_CMD s)
   \<and> bit (registers (snd (i2c_execute_command CMD_FACTORY_RESET s)) REG_ERROR) 2
   \<and> bit (registers (snd (i2c_execute_command CMD_CALIBRATE_VU s)) REG_ERROR) 2"
  by (simp add: i2c_execute_command_def reg_or_def bit_simps)

text \<open>
  Claim C7 says that a read of the command port 0xF0 returns 0 and sets no error bit.  As
  amended: 0xF0 lies beyond the 128 bytes of the bank, so the bounds check of
  i2c_register_read answers 0xFF and sets ERROR_INVALID_REG; nothing else changes.
\<close>

theorem read_command_port_invalid_reg:
  "i2c_register_read REG_COMMAND s =
     (0xFF, s\<lparr>registers := (registers s)(REG_ERROR := registers s REG_ERROR OR ERROR_INVALID_REG)\<rparr>)"
  by (simp add: i2c_register_read_def reg_or_def)

text \<open>Claim C7 as stated fails on the state after boot: the byte is not 0 and ERROR changes.\<close>

theorem read_command_port_counterexample:
  "\<not> (fst (i2c_register_read REG_COMMAND after_boot) = 0
      \<and> registers (snd (i2c_register_read REG_COMMAND after_boot)) REG_ERROR
          = registers after_boot REG_ERROR)"
  by (simp add: i2c_register_read_def reg_defs after_boot_def i2c_registers_init_def
      boot_state_def)

section \<open>Writes to CONTROL, STATUS and ERROR\<close>

text \<open>
  Claim C8 says that after any write to CONTROL the four action bits 1, 2, 6 and 7 are
  clear.  As amended: bits 1 (RESET_ENCODER) and 2 (CLEAR_INPUTS) of the stored byte are
  clear, and bits 6 (SAVE_CONFIG) and 7 (LOAD_CONFIG) are stored as written, as are the
  other bits.
\<close>

theorem control_write_clears_bits_1_2_only:
  "\<not> bit (registers (snd (i2c_register_write REG_CONTROL v s)) REG_CONTROL) 1
   \<and> \<not> bit (registers (snd (i2c_register_write REG_CONTROL v s)) REG_CONTROL) 2
   \<and> bit (registers (snd (i2c_register_write REG_CONTROL v s)) REG_CONTROL) 6 = bit v 6
   \<and> bit (registers (snd (i2c_register_write REG_CONTROL v s)) REG_CONTROL) 7 = bit v 7
   \<and> bit (registers (snd (i2c_register_write REG_CONTROL v s)) REG_CONTROL) 0 = bit v 0
   \<and> bit (registers (snd (i2c_register_write REG_CONTROL v s)) REG_CONTROL) 3 = bit v 3
   \<and> bit (registers (snd (i2c_register_write REG_CONTROL v s)) REG_CONTROL) 4 = bit v 4
   \<and> bit (registers (snd (i2c_register_write REG_CONTROL v s)) REG_CONTROL) 5 = bit v 5"
  unfolding control_after_write
  by (simp add: Let_def bit_simps and_mask_bit1 and_mask_bit2)

text \<open>Claim C8 as stated fails for the value 0xC0: bits 6 and 7 stay set.\<close>

theorem control_write_counterexample:
  "\<not> (\<not> bit (registers (snd (i2c_register_write REG_CONTROL 0xC0 after_boot)) REG_CONTROL) 1
      \<and> \<not> bit (registers (snd (i2c_register_write REG_CONTROL 0xC0 after_boot)) REG_CONTROL) 2
      \<and> \<not> bit (registers (snd (i2c_register_write REG_CONTROL 0xC0 after_boot)) REG_CONTROL) 6
      \<and> \<not> bit (registers (snd (i2c_register_write REG_CONTROL 0xC0 after_boot)) REG_CONTROL) 7)"
  unfolding control_after_write
  by (simp add: Let_def)

text \<open>
  Claim C9: a host write of any byte v to STATUS (0x11) or to ERROR (0x12) returns true,
  stores v and changes nothing else (so it sets no error bit of its own), and a read of
  the same address then returns v, without side effect.  In particular writing 0 to 0x12
  zeroes the error bitmap.
\<close>

theorem status_and_error_are_host_writable:
  "i2c_register_write REG_STATUS v s = (True, s\<lparr>registers := (registers s)(REG_STATUS := v)\<rparr>)
   \<and> i2c_register_write REG_ERROR v s = (True, s\<lparr>registers := (registers s)(REG_ERROR := v)\<rparr>)
   \<and> i2c_register_read REG_STATUS (snd (i2c_register_write REG_STATUS v s))
        = (v, snd (i2c_register_write REG_STATUS v s))
   \<and> i2c_register_read REG_ERROR (snd (i2c_register_write REG_ERROR v s))
        = (v, snd (i2c_register_write REG_ERROR v s))
   \<and> registers (snd (i2c_register_write REG_ERROR 0 s)) REG_ERROR = 0"
  by (simp add: i2c_register_write_def i2c_register_read_def reg_defs Let_def)

text \<open>
  When nothing runs between the parts of update_encoder, a host write to CONTROL of a
  value with bit 1 (RESET_ENCODER) set returns true, zeroes encoder_position,
  encoder_delta and the bank bytes 0x60, 0x61 and 0x62, and leaves bit 1 of the stored
  CONTROL byte clear; host reads of 0x60, 0x61 and 0x62 that follow return 0, also after
  a pass of the main loop with no encoder edge in between.
\<close>

lemma control_reset_encoder_sequential:
  assumes "bit v 1"
  shows "fst (i2c_register_write REG_CONTROL v s) = True
     \<and> encoder_position (snd (i2c_register_write REG_CONTROL v s)) = 0
     \<and> encoder_delta (snd (i2c_register_write REG_CONTROL v s)) = 0
     \<and> registers (snd (i2c_register_write REG_CONTROL v s)) REG_ENCODER_POS_LOW = 0
     \<and> registers (snd (i2c_register_write REG_CONTROL v s)) REG_ENCODER_POS_HIGH = 0
     \<and> registers (snd (i2c_register_write REG_CONTROL v s)) REG_ENCODER_DELTA = 0
     \<and> \<not> bit (registers (snd (i2c_register_write REG_CONTROL v s)) REG_CONTROL) 1
     \<and> fst (i2c_register_read REG_ENCODER_POS_LOW (snd (i2c_register_write REG_CONTROL v s))) = 0
     \<and> fst (i2c_register_read REG_ENCODER_POS_HIGH (snd (i2c_register_write REG_CONTROL v s))) = 0
     \<and> fst (i2c_register_read REG_ENCODER_DELTA (snd (i2c_register_write REG_CONTROL v s))) = 0
     \<and> registers (loop now env (snd (i2c_register_write REG_CONTROL v s))) REG_ENCODER_POS_LOW = 0
     \<and> registers (loop now env (snd (i2c_register_write REG_CONTROL v s))) REG_ENCODER_POS_HIGH = 0
     \<and> registers (loop now env (snd (i2c_register_write REG_CONTROL v s))) REG_ENCODER_DELTA = 0"
proof -
  let ?s' = "snd (i2c_register_write REG_CONTROL v s)"
  have z: "encoder_position ?s' = 0" "encoder_delta ?s' = 0"
    "registers ?s' REG_ENCODER_POS_LOW = 0" "registers ?s' REG_ENCODER_POS_HIGH = 0"
    "registers ?s' REG_ENCODER_DELTA = 0"
    and c: "fst (i2c_register_write REG_CONTROL v s) = True"
           "\<not> bit (registers ?s' REG_CONTROL) 1"
    using assms
    by (simp_all add: i2c_register_write_def reg_defs control_reset_encoder_def
        control_clear_inputs_def Let_def and_mask_bit1 bit_simps)
  have l: "registers (loop now env ?s') REG_ENCODER_POS_LOW = 0
         \<and> registers (loop now env ?s') REG_ENCODER_POS_HIGH = 0
         \<and> registers (loop now env ?s') REG_ENCODER_DELTA = 0"
  proof (cases "now - last_update ?s' \<ge> 10")
    case True
    from loop_publishes_position[OF True, of env] show ?thesis by (simp add: z)
  next
    case False
    then show ?thesis by (simp add: loop_def z)
  qed
  show ?thesis using z c l by (simp add: read_value)
qed

text \<open>
  Claim C4 says that such a write zeroes the position, the accumulator and the bytes
  0x60/0x61/0x62 atomically, so that the next host read yields position 0 and delta 0.
  The code zeroes the two counters with interrupts masked but the three bank bytes after
  interrupts(), and update_encoder stores its snapshot into the bank after its own
  interrupts().  A write that arrives between the snapshot and the stores is therefore
  overwritten in the bank: from the state after boot and three clockwise edges, the tick
  at 10 ms preempted by the host write of 0x03 to 0x10 ends with encoder_position and
  encoder_delta 0 and bit 1 of CONTROL clear, while the host reads 3 at 0x60 and 3 at 0x62.
\<close>

theorem reset_encoder_write_inside_tick_leaves_stale_bytes:
  "fst (i2c_register_read REG_ENCODER_POS_LOW
      (loop_preempted 10 \<lparr>now_in = 10, pin_level = (\<lambda>_. True), now_btn = 10, btn_level = True\<rparr>
         (i2c_receive_handler [REG_CONTROL, 0x03])
         (fold encoder_isr [(True, False), (True, True), (False, True)] after_boot))) = 3
   \<and> fst (i2c_register_read REG_ENCODER_DELTA
      (loop_preempted 10 \<lparr>now_in = 10, pin_level = (\<lambda>_. True), now_btn = 10, btn_level = True\<rparr>
         (i2c_receive_handler [REG_CONTROL, 0x03])
         (fold encoder_isr [(True, False), (True, True), (False, True)] after_boot))) = 3
   \<and> encoder_position
      (loop_preempted 10 \<lparr>now_in = 10, pin_level = (\<lambda>_. True), now_btn = 10, btn_level = True\<rparr>
         (i2c_receive_handler [REG_CONTROL, 0x03])
         (fold encoder_isr [(True, False), (True, True), (False, True)] after_boot)) = 0
   \<and> encoder_delta
      (loop_preempted 10 \<lparr>now_in = 10, pin_level = (\<lambda>_. True), now_btn = 10, btn_level = True\<rparr>
         (i2c_receive_handler [REG_CONTROL, 0x03])
         (fold encoder_isr [(True, False), (True, True), (False, True)] after_boot)) = 0
   \<and> \<not> bit (registers
      (loop_preempted 10 \<lparr>now_in = 10, pin_level = (\<lambda>_. True), now_btn = 10, btn_level = True\<rparr>
         (i2c_receive_handler [REG_CONTROL, 0x03])
         (fold encoder_isr [(True, False), (True, True), (False, True)] after_boot)) REG_CONTROL) 1"
proof -
  let ?es = "[(True, False), (True, True), (False, True)]"
  let ?env = "\<lparr>now_in = 10, pin_level = (\<lambda>_. True), now_btn = 10, btn_level = True\<rparr>"
  define s0 where "s0 = fold encoder_isr ?es after_boot"
  have e: "encoder_state after_boot = 0" "encoder_position after_boot = 0"
    "encoder_delta after_boot = 0" "last_update after_boot = 0"
    by (simp_all add: after_boot_def boot_state_def i2c_registers_init_def reg_defs)
  have d: "net_displacement 0 ?es = 3"
    by (simp add: transition_table_def Let_def)
  have p: "encoder_position s0 = 3" "encoder_delta s0 = 3" "last_update s0 = 0"
    unfolding s0_def using isr_fold[of ?es after_boot] by (simp_all only: e d) simp_all
  have t: "(10::u32) - last_update s0 \<ge> 10" by (simp only: p) simp
  have b: "bit (0x03::u8) 1" by simp
  note r = loop_preempted_reset_write[OF t b, of ?env]
  have "fst (i2c_register_read REG_ENCODER_POS_LOW
          (loop_preempted 10 ?env (i2c_receive_handler [REG_CONTROL, 0x03]) s0)) = 3
      \<and> fst (i2c_register_read REG_ENCODER_DELTA
          (loop_preempted 10 ?env (i2c_receive_handler [REG_CONTROL, 0x03]) s0)) = 3
      \<and> encoder_position (loop_preempted 10 ?env (i2c_receive_handler [REG_CONTROL, 0x03]) s0) = 0
      \<and> encoder_delta (loop_preempted 10 ?env (i2c_receive_handler [REG_CONTROL, 0x03]) s0) = 0
      \<and> \<not> bit (registers (loop_preempted 10 ?env (i2c_receive_handler [REG_CONTROL, 0x03]) s0)
               REG_CONTROL) 1"
    by (simp add: read_value r p)
  then show ?thesis unfolding s0_def .
qed


section \<open>Soft reset\<close>

text \<open>
  Claim C10: the soft reset (0x01 written to the command port) returns true and replaces
  the bank by its initial contents, changing nothing else: encoder_position, encoder_delta
  and encoder_state keep their values, while the bytes 0x60 and 0x61 of the bank are 0.
  The first tick after it, with no encoder edge in between, writes the low and high byte
  of the position held before the reset to 0x60 and 0x61.
\<close>

theorem soft_reset_keeps_encoder_state:
  assumes "now - last_update s \<ge> 10"
  shows "fst (i2c_register_write REG_COMMAND CMD_RESET s)
     \<and> snd (i2c_register_write REG_COMMAND CMD_RESET s)
          = s\<lparr>registers := registers (i2c_registers_init boot_state)\<rparr>
     \<and> encoder_position (snd (i2c_register_write REG_COMMAND CMD_RESET s)) = encoder_position s
     \<and> encoder_delta (snd (i2c_register_write REG_COMMAND CMD_RESET s)) = encoder_delta s
     \<and> encoder_state (snd (i2c_register_write REG_COMMAND CMD_RESET s)) = encoder_state s
     \<and> registers (snd (i2c_register_write REG_COMMAND CMD_RESET s)) REG_ENCODER_POS_LOW = 0
     \<and> registers (snd (i2c_register_write REG_COMMAND CMD_RESET s)) REG_ENCODER_POS_HIGH = 0
     \<and> registers (loop now env (snd (i2c_register_write REG_COMMAND CMD_RESET s))) REG_ENCODER_POS_LOW
          = ucast (encoder_position s)
     \<and> registers (loop now env (snd (i2c_register_write REG_COMMAND CMD_RESET s))) REG_ENCODER_POS_HIGH
          = ucast (drop_bit 8 (encoder_position s))"
proof -
  have w: "i2c_register_write REG_COMMAND CMD_RESET s = (True, i2c_registers_init s)"
    by (simp add: i2c_register_write_def i2c_execute_command_def)
  have t: "now - last_update (i2c_registers_init s) \<ge> 10"
    using assms by (simp add: i2c_registers_init_def)
  show ?thesis
    unfolding w using loop_publishes_position[OF t, of env]
    by (simp add: i2c_registers_init_def)
qed

text \<open>With position 0x0105 before the reset, the tick at 10 ms publishes 0x05 and 0x01.\<close>

theorem soft_reset_keeps_encoder_state_witness:
  "(10::u32) - last_update (after_boot\<lparr>encoder_position := 0x0105\<rparr>) \<ge> 10
   \<and> registers (loop 10 \<lparr>now_in = 10, pin_level = (\<lambda>_. True), now_btn = 10, btn_level = True\<rparr>
         (snd (i2c_register_write REG_COMMAND CMD_RESET (after_boot\<lparr>encoder_position := 0x0105\<rparr>))))
        REG_ENCODER_POS_LOW = 0x05
   \<and> registers (loop 10 \<lparr>now_in = 10, pin_level = (\<lambda>_. True), now_btn = 10, btn_level = True\<rparr>
         (snd (i2c_register_write REG_COMMAND CMD_RESET (after_boot\<lparr>encoder_position := 0x0105\<rparr>))))
        REG_ENCODER_POS_HIGH = 0x01"
  using soft_reset_keeps_encoder_state[of 10 "after_boot\<lparr>encoder_position := 0x0105\<rparr>"
      "\<lparr>now_in = 10, pin_level = (\<lambda>_. True), now_btn = 10, btn_level = True\<rparr>"]
  by (simp add: after_boot_def boot_state_def i2c_registers_init_def reg_defs
      i2c_register_write_def i2c_execute_command_def)

section \<open>STATUS.ERROR\<close>

text \<open>
  Claim C5 says that at the end of every tick bit 1 of STATUS is the OR of the bits of
  ERROR.  As amended: no pass of the main loop changes bit 1 of STATUS or the ERROR
  register, and bit 1 of STATUS is not computed from ERROR.  It is 0 after boot; a
  register read, a command other than the soft reset, a register write to any address
  other than STATUS (0x11) that is not the soft reset, and the encoder interrupt leave it
  as it was, which covers every operation that sets an ERROR bit; the soft reset clears
  it, and a host write of v to STATUS sets it to bit 1 of v.
\<close>

theorem tick_keeps_status_error_bit:
  "bit (registers (loop now env s) REG_STATUS) 1 = bit (registers s REG_STATUS) 1
   \<and> registers (loop now env s) REG_ERROR = registers s REG_ERROR
   \<and> \<not> bit (registers after_boot REG_STATUS) 1
   \<and> bit (registers (snd (i2c_register_read a s)) REG_STATUS) 1 = bit (registers s REG_STATUS) 1
   \<and> bit (registers (snd (i2c_execute_command c s)) REG_STATUS) 1
        = (c \<noteq> CMD_RESET \<and> bit (registers s REG_STATUS) 1)
   \<and> bit (registers (snd (i2c_register_write a v s)) REG_STATUS) 1
        = (if a = REG_STATUS then bit v 1
           else if a = REG_COMMAND then v \<noteq> CMD_RESET \<and> bit (registers s REG_STATUS) 1
           else bit (registers s REG_STATUS) 1)
   \<and> registers (encoder_isr ab s) = registers s"
  by (simp add: loop_status_bit1 loop_error_reg after_boot_def reg_defs read_status_bit1
      execute_command_status_bit1 write_status_bit1 encoder_isr_def Let_def)

text \<open>
  Claim C5 as stated fails after the invalid command 0x77: at the end of the next tick
  ERROR is not zero and bit 1 of STATUS is clear.
\<close>

theorem status_error_counterexample:
  "\<not> (bit (registers (loop 10 \<lparr>now_in = 10, pin_level = (\<lambda>_. True), now_btn = 10, btn_level = True\<rparr>
                (snd (i2c_register_write REG_COMMAND 0x77 after_boot))) REG_STATUS) 1
       \<longleftrightarrow> registers (loop 10 \<lparr>now_in = 10, pin_level = (\<lambda>_. True), now_btn = 10, btn_level = True\<rparr>
                (snd (i2c_register_write REG_COMMAND 0x77 after_boot))) REG_ERROR \<noteq> 0)"
  by (simp add: loop_status_bit1 loop_error_reg i2c_register_write_def i2c_execute_command_def
      after_boot_def reg_defs i2c_registers_init_def boot_state_def)


section \<open>Encoder button\<close>





section \<open>Encoder position and delta\<close>

text \<open>
  Claim C1 says that the delta accumulator saturates, so that ENCODER_DELTA read by the
  host is the net displacement d clamped to [-128, 127], while ENCODER_POSITION advances
  by d modulo 2^16.  As amended: starting with the accumulator at 0 (as every tick leaves
  it) and the previous quadrature state in 0..3, after any sequence of encoder interrupts
  of net displacement d the position has advanced by d modulo 2^16 and the tick publishes
  it to 0x60/0x61; the accumulator is d modulo 2^8 (the int8_t addition wraps, it does not
  saturate), so ENCODER_DELTA read after the tick is (d + 128) mod 256 - 128 as a signed
  byte, which is d whenever -128 <= d <= 127.
\<close>

theorem encoder_delta_wraps_position_exact:
  assumes "encoder_delta s = 0" and "encoder_state s \<le> 3" and "now - last_update s \<ge> 10"
  shows "encoder_position (fold encoder_isr es s)
           = encoder_position s + word_of_int (net_displacement (encoder_state s) es)
     \<and> registers (loop now env (fold encoder_isr es s)) REG_ENCODER_POS_LOW
           = ucast (encoder_position s + word_of_int (net_displacement (encoder_state s) es))
     \<and> registers (loop now env (fold encoder_isr es s)) REG_ENCODER_POS_HIGH
           = ucast (drop_bit 8
               (encoder_position s + word_of_int (net_displacement (encoder_state s) es)))
     \<and> fst (i2c_register_read REG_ENCODER_DELTA (loop now env (fold encoder_isr es s)))
           = word_of_int (net_displacement (encoder_state s) es)
     \<and> sint (fst (i2c_register_read REG_ENCODER_DELTA (loop now env (fold encoder_isr es s))))
           = (net_displacement (encoder_state s) es + 128) mod 256 - 128
     \<and> (- 128 \<le> net_displacement (encoder_state s) es
          \<and> net_displacement (encoder_state s) es \<le> 127
         \<longrightarrow> sint (fst (i2c_register_read REG_ENCODER_DELTA (loop now env (fold encoder_isr es s))))
               = net_displacement (encoder_state s) es)"
proof -
  let ?d = "net_displacement (encoder_state s) es"
  let ?s' = "fold encoder_isr es s"
  have p: "encoder_position ?s' = encoder_position s + word_of_int ?d"
    and q: "encoder_delta ?s' = word_of_int ?d"
    and t: "now - last_update ?s' \<ge> 10"
    using isr_fold[of es s] assms(1,3) by simp_all
  have r: "fst (i2c_register_read REG_ENCODER_DELTA (loop now env ?s')) = word_of_int ?d"
    using loop_publishes_position[OF t, of env] q by (simp add: read_value)
  show ?thesis
    using loop_publishes_position[OF t, of env] p
    by (simp add: r sint_wrap8)
qed

text \<open>Three clockwise edges from the state after boot: delta reads 3, the low byte is 3.\<close>

theorem encoder_delta_wraps_position_exact_witness:
  "encoder_delta after_boot = 0 \<and> encoder_state after_boot \<le> 3
   \<and> (10::u32) - last_update after_boot \<ge> 10
   \<and> sint (fst (i2c_register_read REG_ENCODER_DELTA
        (loop 10 \<lparr>now_in = 10, pin_level = (\<lambda>_. True), now_btn = 10, btn_level = True\<rparr>
           (fold encoder_isr [(True, False), (True, True), (False, True)] after_boot)))) = 3
   \<and> registers
        (loop 10 \<lparr>now_in = 10, pin_level = (\<lambda>_. True), now_btn = 10, btn_level = True\<rparr>
           (fold encoder_isr [(True, False), (True, True), (False, True)] after_boot))
        REG_ENCODER_POS_LOW = 3"
proof -
  have h: "encoder_delta after_boot = 0" "encoder_state after_boot \<le> 3"
    "(10::u32) - last_update after_boot \<ge> 10"
    by (simp_all add: after_boot_def boot_state_def i2c_registers_init_def reg_defs)
  have e: "encoder_state after_boot = 0" "encoder_position after_boot = 0"
    by (simp_all add: after_boot_def boot_state_def i2c_registers_init_def reg_defs)
  have d: "net_displacement 0 [(True, False), (True, True), (False, True)] = 3"
    by (simp add: transition_table_def Let_def)
  from encoder_delta_wraps_position_exact[OF h,
      of "[(True, False), (True, True), (False, True)]"
         "\<lparr>now_in = 10, pin_level = (\<lambda>_. True), now_btn = 10, btn_level = True\<rparr>"]
  show ?thesis using h by (simp only: e d) simp
qed

text \<open>
  Claim C1 as stated fails for 128 clockwise edges (32 full cycles) within one tick, from
  the state after boot: d is 128, the clamped value would be 127, and ENCODER_DELTA reads
  -128.
\<close>

theorem encoder_delta_saturation_counterexample:
  "net_displacement (encoder_state after_boot) (concat (replicate 32 cw_cycle)) = 128
   \<and> sint (fst (i2c_register_read REG_ENCODER_DELTA
        (loop 10 \<lparr>now_in = 10, pin_level = (\<lambda>_. True), now_btn = 10, btn_level = True\<rparr>
           (fold encoder_isr (concat (replicate 32 cw_cycle)) after_boot)))) = - 128
   \<and> sint (fst (i2c_register_read REG_ENCODER_DELTA
        (loop 10 \<lparr>now_in = 10, pin_level = (\<lambda>_. True), now_btn = 10, btn_level = True\<rparr>
           (fold encoder_isr (concat (replicate 32 cw_cycle)) after_boot))))
       \<noteq> max (- 128) (min 127
            (net_displacement (encoder_state after_boot) (concat (replicate 32 cw_cycle))))"
proof -
  let ?es = "concat (replicate 32 cw_cycle)"
  let ?env = "\<lparr>now_in = 10, pin_level = (\<lambda>_. True), now_btn = 10, btn_level = True\<rparr>"
  have e: "encoder_state after_boot = 0" "encoder_delta after_boot = 0"
    "last_update after_boot = 0"
    by (simp_all add: after_boot_def boot_state_def i2c_registers_init_def reg_defs)
  have d0: "net_displacement 0 ?es = 128"
    using cw_turns_net[of 32] by simp
  have d: "net_displacement (encoder_state after_boot) ?es = 128"
    by (simp only: e d0)
  have q: "encoder_delta (fold encoder_isr ?es after_boot) = word_of_int 128"
    using isr_fold[of ?es after_boot] by (simp only: d0 e) simp
  have t: "(10::u32) - last_update (fold encoder_isr ?es after_boot) \<ge> 10"
    using isr_fold[of ?es after_boot] by (simp only: e) simp
  have r: "fst (i2c_register_read REG_ENCODER_DELTA (loop 10 ?env (fold encoder_isr ?es after_boot)))
            = word_of_int 128"
    using loop_publishes_position[OF t, of ?env] q by (simp add: read_value)
  show ?thesis unfolding r d by simp
qed


section \<open>Debounce window\<close>

text \<open>
  Claim C3 says that a sample differing from the stable bit is committed iff
  now - last_change[i] is at least the debounce window, and that the window is the value
  held in CONFIG_DEBOUNCE (0x71), so that a host write to 0x71 changes it.  As amended:
  for every channel i below 12 and every run of update_inputs, a sample differing from
  the stable bit is committed iff now - input_last_change[i] (unsigned 32-bit difference)
  is at least 50, the constant INPUT_DEBOUNCE_MS, and input_last_change[i] becomes now
  exactly then; otherwise the stable bit is kept.  A host write of any v to 0x71 is
  stored, and changes neither the outcome for the stable bit nor input_last_change[i].
\<close>

theorem debounce_window_is_constant:
  assumes "i < NUM_DIGITAL_INPUTS" and "pin_level env i \<noteq> stable_bit s i"
  shows "((stable_bit (update_inputs env s) i = pin_level env i)
            = (now_in env - input_last_change s i \<ge> 50))
     \<and> ((stable_bit (update_inputs env s) i = stable_bit s i)
            = (now_in env - input_last_change s i < 50))
     \<and> input_last_change (update_inputs env s) i
           = (if now_in env - input_last_change s i \<ge> 50 then now_in env
              else input_last_change s i)
     \<and> registers (snd (i2c_register_write REG_CONFIG_DEBOUNCE v s)) REG_CONFIG_DEBOUNCE = v
     \<and> stable_bit (update_inputs env (snd (i2c_register_write REG_CONFIG_DEBOUNCE v s))) i
           = stable_bit (update_inputs env s) i
     \<and> input_last_change (update_inputs env (snd (i2c_register_write REG_CONFIG_DEBOUNCE v s))) i
           = input_last_change (update_inputs env s) i"
proof -
  let ?s' = "s\<lparr>registers := (registers s)(REG_CONFIG_DEBOUNCE := v)\<rparr>"
  have w: "snd (i2c_register_write REG_CONFIG_DEBOUNCE v s) = ?s'"
    by (simp add: write_config_debounce)
  have same: "stable_bit ?s' i = stable_bit s i" "input_last_change ?s' = input_last_change s"
    by (simp_all add: stable_bit_def)
  have p': "pin_level env i \<noteq> stable_bit ?s' i" using assms(2) by (simp add: same)
  have c: "stable_bit (update_inputs env s) i =
       (if now_in env - input_last_change s i \<ge> 50 then pin_level env i else stable_bit s i)"
    using update_inputs_commit[OF assms(1), of env s] assms(2) by simp
  have c': "stable_bit (update_inputs env ?s') i =
       (if now_in env - input_last_change s i \<ge> 50 then pin_level env i else stable_bit s i)"
    using update_inputs_commit[OF assms(1), of env ?s'] p' by (simp add: same)
  have t: "input_last_change (update_inputs env s) i =
       (if now_in env - input_last_change s i \<ge> 50 then now_in env else input_last_change s i)"
    using update_inputs_commit_time[OF assms] by simp
  have t': "input_last_change (update_inputs env ?s') i =
       (if now_in env - input_last_change s i \<ge> 50 then now_in env else input_last_change s i)"
    using update_inputs_commit_time[OF assms(1) p'] by (simp add: same)
  show ?thesis
    unfolding w using assms(2) by (auto simp add: c c' t t' not_le)
qed

text \<open>
  Channel 2 read low at 60 ms from the state after boot (stable bit 1, last change 0):
  the bit is committed to 0 and the last change becomes 60.
\<close>

theorem debounce_window_is_constant_witness:
  "(2::nat) < NUM_DIGITAL_INPUTS
   \<and> pin_level \<lparr>now_in = 60, pin_level = (\<lambda>k. k \<noteq> 2), now_btn = 60, btn_level = True\<rparr> 2
        \<noteq> stable_bit after_boot 2
   \<and> stable_bit (update_inputs
         \<lparr>now_in = 60, pin_level = (\<lambda>k. k \<noteq> 2), now_btn = 60, btn_level = True\<rparr> after_boot) 2
        = False
   \<and> input_last_change (update_inputs
         \<lparr>now_in = 60, pin_level = (\<lambda>k. k \<noteq> 2), now_btn = 60, btn_level = True\<rparr> after_boot) 2
        = 60"
proof -
  have e: "input_state_low after_boot = 0xFF" "input_last_change after_boot = (\<lambda>_. 0)"
    by (simp_all add: after_boot_def boot_state_def i2c_registers_init_def reg_defs)
  have h: "(2::nat) < NUM_DIGITAL_INPUTS"
    "pin_level \<lparr>now_in = 60, pin_level = (\<lambda>k. k \<noteq> 2), now_btn = 60, btn_level = True\<rparr> 2
        \<noteq> stable_bit after_boot 2"
    by (simp_all add: stable_bit_def e)
  from debounce_window_is_constant[OF h, of 0]
  show ?thesis using h by (simp add: e)
qed

text \<open>
  Claim C3 as stated fails after the host has written 10 to 0x71: channel 2 reads low at
  20 ms, which differs from the stable bit, and 20 - 0 is at least the stored 10, yet the
  sample is not committed.
\<close>

theorem debounce_config_counterexample:
  "registers (snd (i2c_register_write REG_CONFIG_DEBOUNCE 10 after_boot)) REG_CONFIG_DEBOUNCE = 10
   \<and> pin_level \<lparr>now_in = 20, pin_level = (\<lambda>k. k \<noteq> 2), now_btn = 20, btn_level = True\<rparr> 2
        \<noteq> stable_bit (snd (i2c_register_write REG_CONFIG_DEBOUNCE 10 after_boot)) 2
   \<and> now_in \<lparr>now_in = 20, pin_level = (\<lambda>k. k \<noteq> 2), now_btn = 20, btn_level = True\<rparr>
         - input_last_change (snd (i2c_register_write REG_CONFIG_DEBOUNCE 10 after_boot)) 2
        \<ge> ucast (registers (snd (i2c_register_write REG_CONFIG_DEBOUNCE 10 after_boot))
                    REG_CONFIG_DEBOUNCE)
   \<and> stable_bit (update_inputs
         \<lparr>now_in = 20, pin_level = (\<lambda>k. k \<noteq> 2), now_btn = 20, btn_level = True\<rparr>
         (snd (i2c_register_write REG_CONFIG_DEBOUNCE 10 after_boot))) 2
        \<noteq> pin_level \<lparr>now_in = 20, pin_level = (\<lambda>k. k \<noteq> 2), now_btn = 20, btn_level = True\<rparr> 2"
proof -
  let ?s = "after_boot\<lparr>registers := (registers after_boot)(REG_CONFIG_DEBOUNCE := 10)\<rparr>"
  have w: "snd (i2c_register_write REG_CONFIG_DEBOUNCE 10 after_boot) = ?s"
    by (simp add: write_config_debounce)
  have e: "input_state_low ?s = 0xFF" "input_last_change ?s = (\<lambda>_. 0)"
    by (simp_all add: after_boot_def boot_state_def i2c_registers_init_def reg_defs)
  have b: "stable_bit ?s 2" by (simp add: stable_bit_def e)
  have c: "stable_bit (update_inputs
         \<lparr>now_in = 20, pin_level = (\<lambda>k. k \<noteq> 2), now_btn = 20, btn_level = True\<rparr> ?s) 2"
    by (subst update_inputs_commit) (simp_all add: b e)
  show ?thesis unfolding w using b c by (simp add: e)
qed


end
